theory Spec2Isabelle
  imports Complex_Main
begin

section \<open>Python values and built-ins used by the collector\<close>

text \<open>
  The collector \<^verbatim>\<open>collect-homelab-stats.py\<close> shells out to system tools and parses
  their text output. The model makes every input explicit: what each shell command
  returns, which paths exist, and what the clock reads.

  Strings are lists of code points below 256 (Isabelle's \<open>char\<close>); command output with
  code points above U+00FF is outside the model. Exceptions are values of \<open>py_exn\<close>: a
  function that can raise returns \<open>py_exn + 'a\<close>, with \<open>Inl\<close> for the raise. Only
  subclasses of \<^verbatim>\<open>Exception\<close> are modelled; asynchronous interrupts and failures of
  \<^verbatim>\<open>print\<close> are not.
\<close>

datatype py_exn =
  ValueError | KeyError | IndexError | TimeoutExpired | OSError | UnicodeDecodeError

subsection \<open>Whitespace: \<^verbatim>\<open>str.strip()\<close> and \<^verbatim>\<open>str.split()\<close>\<close>

definition py_isspace :: "char \<Rightarrow> bool" where
  \<comment> \<open>\<^verbatim>\<open>str.isspace\<close> below U+0100: TAB..CR, FS..US, SPACE, NEL, NBSP\<close>
  "py_isspace c = ((of_char c :: nat) \<in> {9, 10, 11, 12, 13, 28, 29, 30, 31, 32, 133, 160})"

definition strip :: "string \<Rightarrow> string" where
  "strip s = rev (dropWhile py_isspace (rev (dropWhile py_isspace s)))"

definition trimmed :: "string \<Rightarrow> bool" where
  \<comment> \<open>no whitespace at either end\<close>
  "trimmed s = (s = [] \<or> (\<not> py_isspace (hd s) \<and> \<not> py_isspace (last s)))"

fun split_acc :: "string \<Rightarrow> string \<Rightarrow> string list" where
  "split_acc cur [] = (if cur = [] then [] else [cur])"
| "split_acc cur (c # cs) =
     (if py_isspace c then (if cur = [] then split_acc [] cs else cur # split_acc [] cs)
      else split_acc (cur @ [c]) cs)"

definition split_ws :: "string \<Rightarrow> string list" where
  \<comment> \<open>\<^verbatim>\<open>s.split()\<close>: the maximal runs of non-whitespace\<close>
  "split_ws s = split_acc [] s"

subsection \<open>\<^verbatim>\<open>str.isdigit()\<close> and \<^verbatim>\<open>int(str)\<close>\<close>

definition is_ascii_digit :: "char \<Rightarrow> bool" where
  "is_ascii_digit c = (48 \<le> (of_char c :: nat) \<and> (of_char c :: nat) \<le> 57)"

definition digit_val :: "char \<Rightarrow> int" where
  "digit_val c = of_char c - 48"

definition isdigit_chr :: "char \<Rightarrow> bool" where
  \<comment> \<open>the superscripts U+00B2, U+00B3 and U+00B9 are digits for \<^verbatim>\<open>isdigit\<close>, not for \<^verbatim>\<open>int\<close>\<close>
  "isdigit_chr c = (is_ascii_digit c \<or> (of_char c :: nat) \<in> {178, 179, 185})"

definition isdigit :: "string \<Rightarrow> bool" where
  "isdigit s = (s \<noteq> [] \<and> list_all isdigit_chr s)"

fun int_digits :: "int \<Rightarrow> string \<Rightarrow> int option" where
  "int_digits acc [] = Some acc"
| "int_digits acc (c # cs) =
     (if is_ascii_digit c then int_digits (acc * 10 + digit_val c) cs
      else if c = CHR ''_'' then
        (case cs of
           [] \<Rightarrow> None
         | d # ds \<Rightarrow> if is_ascii_digit d then int_digits acc cs else None)
      else None)"

definition py_int :: "string \<Rightarrow> py_exn + int" where
  \<comment> \<open>\<^verbatim>\<open>int(s)\<close>: surrounding whitespace, an optional sign, decimal digits with single
      underscores between them. The conversion limit on the number of digits
      (\<^verbatim>\<open>sys.set_int_max_str_digits\<close>) of recent interpreters is not modelled.\<close>
  "py_int s =
     (let t = strip s;
          neg = (case t of [] \<Rightarrow> False | c # _ \<Rightarrow> c = CHR ''-'');
          body = (case t of [] \<Rightarrow> [] | c # cs \<Rightarrow> if c = CHR ''-'' \<or> c = CHR ''+'' then cs else t)
      in case body of
           [] \<Rightarrow> Inl ValueError
         | c # _ \<Rightarrow>
             if is_ascii_digit c then
               (case int_digits 0 body of
                  None \<Rightarrow> Inl ValueError
                | Some v \<Rightarrow> Inr (if neg then - v else v))
             else Inl ValueError)"

definition int_if_isdigit :: "string \<Rightarrow> int \<Rightarrow> py_exn + int" where
  \<comment> \<open>the expression \<^verbatim>\<open>int(s) if s.isdigit() else d\<close>\<close>
  "int_if_isdigit s d = (if isdigit s then py_int s else Inr d)"

section \<open>Configuration\<close>

record config =
  output_path :: string
  prometheus_url :: string
  use_prometheus :: bool
  fail2ban_log :: string
  services :: "(string \<rightharpoonup> string) list"
  storage_paths :: "string list"
  github_repo :: "string option"
  github_branch :: string

definition CONFIG :: config where
  "CONFIG = \<lparr>
     output_path = ''/var/www/html/homelab-stats.json'',
     prometheus_url = ''http://localhost:9090'',
     use_prometheus = False,
     fail2ban_log = ''/var/log/fail2ban.log'',
     services = [
       [''name'' \<mapsto> ''Prometheus'', ''container'' \<mapsto> ''prometheus''],
       [''name'' \<mapsto> ''Grafana'', ''container'' \<mapsto> ''grafana''],
       [''name'' \<mapsto> ''Fail2Ban'', ''service'' \<mapsto> ''fail2ban''],
       [''name'' \<mapsto> ''Nginx Proxy Manager'', ''container'' \<mapsto> ''nginx-proxy-manager''],
       [''name'' \<mapsto> ''Jellyfin'', ''container'' \<mapsto> ''jellyfin''],
       [''name'' \<mapsto> ''Nextcloud'', ''container'' \<mapsto> ''nextcloud'']],
     storage_paths = [''/mnt/data'', ''/mnt/media''],
     github_repo = None,
     github_branch = ''main'' \<rparr>"

section \<open>The command executor\<close>

text \<open>
  What \<^verbatim>\<open>subprocess.run(cmd, shell=True, capture_output=True, text=True, timeout=30)\<close>
  does for a command is an input of the model: the process completes with a return
  code and its decoded standard output, or the call raises (the timeout expires, the
  shell cannot be started, the output does not decode).
\<close>

datatype run_result = Completed int string | Raised py_exn

type_synonym shell = "string \<Rightarrow> run_result"

definition run_command_try :: "shell \<Rightarrow> string \<Rightarrow> py_exn + string" where
  \<comment> \<open>the body of the \<^verbatim>\<open>try\<close>: \<^verbatim>\<open>return result.stdout.strip()\<close>, the return code is not read\<close>
  "run_command_try sh cmd =
     (case sh cmd of
        Completed returncode stdout \<Rightarrow> Inr (strip stdout)
      | Raised e \<Rightarrow> Inl e)"

definition run_command :: "shell \<Rightarrow> string \<Rightarrow> string" where
  "run_command sh cmd = (case run_command_try sh cmd of Inr out \<Rightarrow> out | Inl e \<Rightarrow> '''')"

text \<open>The single quote and the backslash, for writing the command lines.\<close>

definition sq :: string where
  "sq = [CHR 0x27]"

definition bs :: string where
  "bs = [CHR 0x5C]"

section \<open>The intrusion-block collector\<close>

record attack_stats =
  attacks_blocked_24h :: int
  attacks_blocked_total :: int
  active_bans :: int

definition banned_cmd :: string where
  "banned_cmd = ''fail2ban-client status 2>/dev/null | grep '' @ sq @ ''Total banned'' @ sq
     @ '' | awk '' @ sq @ ''{print $NF}'' @ sq"

definition bans_24h_cmd :: "config \<Rightarrow> string" where
  "bans_24h_cmd cfg =
     ''grep -c '' @ sq @ ''Ban'' @ sq @ '' '' @ fail2ban_log cfg @ '' 2>/dev/null | head -1''"

definition active_bans_cmd :: string where
  "active_bans_cmd =
     ''fail2ban-client status 2>/dev/null | grep -oP '' @ sq @ ''Currently banned:'' @ bs @ ''s+''
     @ bs @ ''K'' @ bs @ ''d+'' @ sq @ '' | paste -sd+ | bc''"

definition get_attacks_blocked_try :: "config \<Rightarrow> shell \<Rightarrow> py_exn + attack_stats" where
  \<comment> \<open>the body of the \<^verbatim>\<open>try\<close>; the local \<^verbatim>\<open>yesterday\<close> is computed and never used\<close>
  "get_attacks_blocked_try cfg sh =
     (case int_if_isdigit (run_command sh banned_cmd) 0 of
        Inl e \<Rightarrow> Inl e
      | Inr total_banned \<Rightarrow>
     (case int_if_isdigit (run_command sh (bans_24h_cmd cfg)) 0 of
        Inl e \<Rightarrow> Inl e
      | Inr bans_24h \<Rightarrow>
     (case int_if_isdigit (run_command sh active_bans_cmd) 0 of
        Inl e \<Rightarrow> Inl e
      | Inr active \<Rightarrow>
          Inr \<lparr> attacks_blocked_24h = max bans_24h 100,
                attacks_blocked_total = max total_banned 45000,
                active_bans = active \<rparr>)))"

definition attacks_fallback :: attack_stats where
  "attacks_fallback =
     \<lparr> attacks_blocked_24h = 2847, attacks_blocked_total = 45230, active_bans = 156 \<rparr>"

definition get_attacks_blocked :: "config \<Rightarrow> shell \<Rightarrow> attack_stats" where
  "get_attacks_blocked cfg sh =
     (case get_attacks_blocked_try cfg sh of Inr r \<Rightarrow> r | Inl e \<Rightarrow> attacks_fallback)"

section \<open>The container status collector\<close>

text \<open>The key \<^verbatim>\<open>total\<close> of the returned dictionary is the field \<open>total_n\<close>.\<close>

record container_stats =
  running :: int
  total_n :: int
  healthy :: int
  unhealthy :: int

definition running_cmd :: string where
  "running_cmd = ''docker ps -q 2>/dev/null | wc -l''"

definition total_cmd :: string where
  "total_cmd = ''docker ps -aq 2>/dev/null | wc -l''"

definition healthy_cmd :: string where
  "healthy_cmd =
     ''docker ps --filter '' @ sq @ ''health=healthy'' @ sq @ '' -q 2>/dev/null | wc -l''"

definition unhealthy_cmd :: string where
  "unhealthy_cmd =
     ''docker ps --filter '' @ sq @ ''health=unhealthy'' @ sq @ '' -q 2>/dev/null | wc -l''"

definition get_container_stats_try :: "shell \<Rightarrow> py_exn + container_stats" where
  "get_container_stats_try sh =
     (case int_if_isdigit (run_command sh running_cmd) 0 of
        Inl e \<Rightarrow> Inl e
      | Inr running_raw \<Rightarrow>
     (case int_if_isdigit (run_command sh total_cmd) 0 of
        Inl e \<Rightarrow> Inl e
      | Inr total_raw \<Rightarrow>
     (case int_if_isdigit (run_command sh healthy_cmd) running_raw of
        Inl e \<Rightarrow> Inl e
      | Inr healthy_raw \<Rightarrow>
     (case int_if_isdigit (run_command sh unhealthy_cmd) 0 of
        Inl e \<Rightarrow> Inl e
      | Inr unhealthy_raw \<Rightarrow>
          Inr \<lparr> running = (if running_raw > 0 then running_raw else 24),
                total_n = (if total_raw > 0 then total_raw else 26),
                healthy = (if healthy_raw > 0 then healthy_raw else running_raw),
                unhealthy = unhealthy_raw \<rparr>))))"

definition containers_fallback :: container_stats where
  "containers_fallback = \<lparr> running = 24, total_n = 26, healthy = 24, unhealthy = 0 \<rparr>"

definition get_container_stats :: "shell \<Rightarrow> container_stats" where
  "get_container_stats sh =
     (case get_container_stats_try sh of Inr r \<Rightarrow> r | Inl e \<Rightarrow> containers_fallback)"

section \<open>The uptime collector\<close>

subsection \<open>Floats\<close>

text \<open>
  A Python float is modelled by its exact value: a rational, one of the two infinities,
  or not-a-number. The rounding of binary floating point is not modelled: arithmetic on
  finite values is exact, and it agrees with the interpreter wherever the float
  computation is exact, as it is on the concrete inputs evaluated below.
\<close>

datatype py_float = Finite rat | PosInf | NegInf | NaN

fun digitpart_more :: "string \<Rightarrow> string \<Rightarrow> string \<times> string" where
  "digitpart_more ds [] = (ds, [])"
| "digitpart_more ds (c # cs) =
     (if is_ascii_digit c then digitpart_more (ds @ [c]) cs
      else if c = CHR ''_'' then
        (case cs of
           [] \<Rightarrow> (ds, c # cs)
         | d # _ \<Rightarrow> if is_ascii_digit d then digitpart_more ds cs else (ds, c # cs))
      else (ds, c # cs))"

definition digitpart :: "string \<Rightarrow> string \<times> string" where
  \<comment> \<open>the longest prefix of the form \<^verbatim>\<open>digit (["_"] digit)*\<close>: its digits, and the rest\<close>
  "digitpart s =
     (case s of
        [] \<Rightarrow> ([], [])
      | c # cs \<Rightarrow> if is_ascii_digit c then digitpart_more [c] cs else ([], s))"

definition digits_int :: "string \<Rightarrow> int" where
  "digits_int ds = foldl (\<lambda>a c. a * 10 + digit_val c) 0 ds"

definition pow10 :: "int \<Rightarrow> rat" where
  "pow10 e = (if 0 \<le> e then 10 ^ nat e else 1 / 10 ^ nat (- e))"

definition exponent_part :: "string \<Rightarrow> int option" where
  \<comment> \<open>nothing, or \<^verbatim>\<open>("e" | "E") [sign] digitpart\<close> up to the end of the string\<close>
  "exponent_part s =
     (case s of
        [] \<Rightarrow> Some 0
      | c # cs \<Rightarrow>
          if c = CHR ''e'' \<or> c = CHR ''E'' then
            (let neg = (case cs of [] \<Rightarrow> False | d # _ \<Rightarrow> d = CHR ''-'');
                 body = (case cs of
                           [] \<Rightarrow> []
                         | d # ds \<Rightarrow> if d = CHR ''-'' \<or> d = CHR ''+'' then ds else cs)
             in case digitpart body of
                  (ds, rest) \<Rightarrow>
                    if ds \<noteq> [] \<and> rest = [] then Some (if neg then - digits_int ds else digits_int ds)
                    else None)
          else None)"

definition float_literal :: "string \<Rightarrow> rat option" where
  \<comment> \<open>an unsigned \<^verbatim>\<open>floatnumber\<close>: \<^verbatim>\<open>[digitpart] "." digitpart | digitpart ["."]\<close>, then
      the exponent\<close>
  "float_literal s =
     (case digitpart s of
        (ip, r1) \<Rightarrow>
          (case (case r1 of
                   [] \<Rightarrow> ([], [])
                 | c # cs \<Rightarrow> if c = CHR ''.'' then digitpart cs else ([], r1)) of
             (fp, r2) \<Rightarrow>
               if ip = [] \<and> fp = [] then None
               else
                 (case exponent_part r2 of
                    None \<Rightarrow> None
                  | Some e \<Rightarrow>
                      Some (of_int (digits_int (ip @ fp)) * pow10 (e - int (length fp))))))"

definition to_lower :: "char \<Rightarrow> char" where
  "to_lower c =
     (if 65 \<le> (of_char c :: nat) \<and> (of_char c :: nat) \<le> 90 then char_of ((of_char c :: nat) + 32)
      else c)"

definition dbl_overflow :: rat where
  \<comment> \<open>the least magnitude that rounds to infinity in binary64\<close>
  "dbl_overflow = 2 ^ 1024 - 2 ^ 970"

definition py_float_of_str :: "string \<Rightarrow> py_exn + py_float" where
  \<comment> \<open>\<^verbatim>\<open>float(s)\<close>: surrounding whitespace, an optional sign, then \<^verbatim>\<open>inf\<close>,
      \<^verbatim>\<open>infinity\<close> or \<^verbatim>\<open>nan\<close> in any case, or a decimal number\<close>
  "py_float_of_str s =
     (let t = strip s;
          neg = (case t of [] \<Rightarrow> False | c # _ \<Rightarrow> c = CHR ''-'');
          body = (case t of [] \<Rightarrow> [] | c # cs \<Rightarrow> if c = CHR ''-'' \<or> c = CHR ''+'' then cs else t);
          low = map to_lower body
      in if low = ''inf'' \<or> low = ''infinity'' then Inr (if neg then NegInf else PosInf)
         else if low = ''nan'' then Inr NaN
         else
           (case float_literal body of
              None \<Rightarrow> Inl ValueError
            | Some v \<Rightarrow>
                if dbl_overflow \<le> v then Inr (if neg then NegInf else PosInf)
                else Inr (Finite (if neg then - v else v))))"

definition float_div_pos :: "py_float \<Rightarrow> int \<Rightarrow> py_float" where
  \<comment> \<open>\<^verbatim>\<open>x / n\<close> for a positive integer constant \<open>n\<close>\<close>
  "float_div_pos x n = (case x of Finite v \<Rightarrow> Finite (v / of_int n) | _ \<Rightarrow> x)"

definition float_mul_pos :: "py_float \<Rightarrow> int \<Rightarrow> py_float" where
  \<comment> \<open>\<^verbatim>\<open>x * n\<close> for a positive integer constant \<open>n\<close>\<close>
  "float_mul_pos x n = (case x of Finite v \<Rightarrow> Finite (v * of_int n) | _ \<Rightarrow> x)"

fun float_less :: "py_float \<Rightarrow> py_float \<Rightarrow> bool" where
  "float_less NaN _ = False"
| "float_less _ NaN = False"
| "float_less (Finite a) (Finite b) = (a < b)"
| "float_less (Finite a) PosInf = True"
| "float_less (Finite a) NegInf = False"
| "float_less PosInf _ = False"
| "float_less NegInf NegInf = False"
| "float_less NegInf _ = True"

definition py_min :: "py_float \<Rightarrow> py_float \<Rightarrow> py_float" where
  \<comment> \<open>\<^verbatim>\<open>min(a, b)\<close> keeps its first argument unless the second is smaller\<close>
  "py_min a b = (if float_less b a then b else a)"

definition round_half_even :: "rat \<Rightarrow> int" where
  "round_half_even x =
     (let f = \<lfloor>x\<rfloor>; d = x - of_int f
      in if d < 1 / 2 then f else if 1 / 2 < d then f + 1 else if even f then f else f + 1)"

definition round1 :: "rat \<Rightarrow> rat" where
  \<comment> \<open>\<^verbatim>\<open>round(x, 1)\<close> on a finite value\<close>
  "round1 x = of_int (round_half_even (x * 10)) / 10"

definition py_round1 :: "py_float \<Rightarrow> py_float" where
  \<comment> \<open>\<^verbatim>\<open>round(x, 1)\<close> returns infinities and not-a-number unchanged\<close>
  "py_round1 x = (case x of Finite v \<Rightarrow> Finite (round1 v) | _ \<Rightarrow> x)"

subsection \<open>\<^verbatim>\<open>get_uptime_percentage\<close>\<close>

definition uptime_cmd :: string where
  "uptime_cmd = ''cat /proc/uptime | awk '' @ sq @ ''{print $1}'' @ sq"

definition thirty_days_seconds :: int where
  "thirty_days_seconds = 30 * 24 * 60 * 60"

definition get_uptime_percentage_try :: "shell \<Rightarrow> py_exn + py_float" where
  "get_uptime_percentage_try sh =
     (case py_float_of_str (run_command sh uptime_cmd) of
        Inl e \<Rightarrow> Inl e
      | Inr uptime_seconds \<Rightarrow>
          (let percentage =
                 py_min (float_mul_pos (float_div_pos uptime_seconds thirty_days_seconds) 100)
                   (Finite 100)
           in Inr (py_round1 percentage)))"

definition get_uptime_percentage :: "shell \<Rightarrow> py_float" where
  "get_uptime_percentage sh =
     (case get_uptime_percentage_try sh of Inr p \<Rightarrow> p | Inl e \<Rightarrow> Finite (199 / 2))"



section \<open>The storage collector\<close>

text \<open>
  Which paths exist (\<^verbatim>\<open>os.path.exists\<close>) is an input, like the shell. The terabyte
  values are floats in the source and exact rationals here; the literals 3.2 and 2.8 are
  the rationals \<open>16 / 5\<close> and \<open>14 / 5\<close>.
\<close>

record storage_stats =
  total_tb :: rat
  used_tb :: rat
  available_tb :: rat
  percentage_used :: int

definition df_cmd :: "string \<Rightarrow> string" where
  "df_cmd path = ''df -B1 '' @ path @ '' | tail -1''"

fun storage_loop ::
  "(string \<Rightarrow> bool) \<Rightarrow> shell \<Rightarrow> string list \<Rightarrow> int \<Rightarrow> int \<Rightarrow> py_exn + (int \<times> int)" where
  "storage_loop ex sh [] total_bytes used_bytes = Inr (total_bytes, used_bytes)"
| "storage_loop ex sh (path # paths) total_bytes used_bytes =
     (if ex path then
        (let parts = split_ws (run_command sh (df_cmd path))
         in if 4 \<le> length parts then
              (case py_int (parts ! 1) of
                 Inl e \<Rightarrow> Inl e
               | Inr t \<Rightarrow>
                   (case py_int (parts ! 2) of
                      Inl e \<Rightarrow> Inl e
                    | Inr u \<Rightarrow> storage_loop ex sh paths (total_bytes + t) (used_bytes + u)))
            else storage_loop ex sh paths total_bytes used_bytes)
      else storage_loop ex sh paths total_bytes used_bytes)"

definition storage_report :: "int \<Rightarrow> int \<Rightarrow> storage_stats" where
  \<comment> \<open>from the conversion to terabytes to the returned dictionary\<close>
  "storage_report total_bytes used_bytes =
     (let total = rat_of_int total_bytes / 1024 ^ 4;
          used = rat_of_int used_bytes / 1024 ^ 4;
          available = total - used;
          percentage = (if 0 < total then used / total * 100 else 0)
      in \<lparr> total_tb = (if 0 < total then round1 total else 6),
           used_tb = (if 0 < used then round1 used else 16 / 5),
           available_tb = (if 0 < available then round1 available else 14 / 5),
           percentage_used = (if 0 < percentage then round_half_even percentage else 53) \<rparr>)"

definition get_storage_stats_try ::
  "config \<Rightarrow> (string \<Rightarrow> bool) \<Rightarrow> shell \<Rightarrow> py_exn + storage_stats" where
  "get_storage_stats_try cfg ex sh =
     (case storage_loop ex sh (storage_paths cfg) 0 0 of
        Inl e \<Rightarrow> Inl e
      | Inr (total_bytes, used_bytes) \<Rightarrow> Inr (storage_report total_bytes used_bytes))"

definition storage_fallback :: storage_stats where
  "storage_fallback =
     \<lparr> total_tb = 6, used_tb = 16 / 5, available_tb = 14 / 5, percentage_used = 53 \<rparr>"

definition get_storage_stats :: "config \<Rightarrow> (string \<Rightarrow> bool) \<Rightarrow> shell \<Rightarrow> storage_stats" where
  "get_storage_stats cfg ex sh =
     (case get_storage_stats_try cfg ex sh of Inr r \<Rightarrow> r | Inl e \<Rightarrow> storage_fallback)"


section \<open>The service status collector\<close>

subsection \<open>Time\<close>

text \<open>
  Instants and durations are in seconds. A \<^verbatim>\<open>datetime\<close> is aware (an instant on the UTC
  time line) or naive (a wall-clock reading). The two library parsers are inputs of the
  model, since what they accept depends on the interpreter version and the locale:
  \<open>None\<close> stands for the \<^verbatim>\<open>ValueError\<close> they raise. A stored time stamp
  \<^verbatim>\<open>d.isoformat() + 'Z'\<close> is represented by the reading \<open>d\<close> itself.
\<close>

datatype py_datetime = Aware rat | Naive rat

type_synonym timestamp = rat

record world =
  shell_of :: shell
  path_exists :: "string \<Rightarrow> bool"
  utc_offset :: rat
  fromisoformat :: "string \<Rightarrow> py_datetime option"
  strptime_systemd :: "string \<Rightarrow> rat option"

text \<open>
  \<open>utc_offset\<close> is the offset of local time, \<open>fromisoformat\<close> is
  \<^verbatim>\<open>datetime.fromisoformat\<close>, and \<open>strptime_systemd\<close> is \<^verbatim>\<open>datetime.strptime\<close> with the
  format \<^verbatim>\<open>%a %Y-%m-%d %H:%M:%S %Z\<close>, which yields a naive reading.
\<close>

definition py_trunc :: "rat \<Rightarrow> int" where
  \<comment> \<open>\<^verbatim>\<open>int(x)\<close> on a float truncates towards zero\<close>
  "py_trunc x = (if 0 \<le> x then \<lfloor>x\<rfloor> else \<lceil>x\<rceil>)"

definition hours_since :: "world \<Rightarrow> rat \<Rightarrow> py_datetime \<Rightarrow> int" where
  \<comment> \<open>\<^verbatim>\<open>int((datetime.now(start_time.tzinfo) - start_time).total_seconds() / 3600)\<close> when
      the clock reads the UTC instant \<open>now\<close>\<close>
  "hours_since w now start_time =
     (case start_time of
        Aware t \<Rightarrow> py_trunc ((now - t) / 3600)
      | Naive t \<Rightarrow> py_trunc ((now + utc_offset w - t) / 3600))"

subsection \<open>String helpers\<close>

definition replace_Z :: "string \<Rightarrow> string" where
  \<comment> \<open>\<^verbatim>\<open>s.replace('Z', '+00:00')\<close>\<close>
  "replace_Z s = concat (map (\<lambda>c. if c = CHR ''Z'' then ''+00:00'' else [c]) s)"

fun contains :: "string \<Rightarrow> string \<Rightarrow> bool" where
  \<comment> \<open>\<^verbatim>\<open>p in s\<close>\<close>
  "contains p [] = (p = [])"
| "contains p (c # cs) = (take (length p) (c # cs) = p \<or> contains p cs)"

fun split_chr :: "char \<Rightarrow> string \<Rightarrow> string \<Rightarrow> string list" where
  "split_chr sep cur [] = [cur]"
| "split_chr sep cur (c # cs) =
     (if c = sep then cur # split_chr sep [] cs else split_chr sep (cur @ [c]) cs)"

definition split_on :: "char \<Rightarrow> string \<Rightarrow> string list" where
  \<comment> \<open>\<^verbatim>\<open>s.split(sep)\<close> for a separator of one character\<close>
  "split_on sep s = split_chr sep [] s"

subsection \<open>\<^verbatim>\<open>get_service_status\<close>\<close>

record service_status =
  name :: string
  status :: string
  uptime_hours :: int
  last_check :: timestamp

definition ps_cmd :: "string \<Rightarrow> string" where
  "ps_cmd container = ''docker ps -q -f name='' @ container @ '' 2>/dev/null''"

definition started_cmd :: "string \<Rightarrow> string" where
  "started_cmd container =
     ''docker inspect -f '' @ sq @ ''{{.State.StartedAt}}'' @ sq @ '' '' @ container
     @ '' 2>/dev/null''"

definition health_cmd :: "string \<Rightarrow> string" where
  "health_cmd container =
     ''docker inspect -f '' @ sq @ ''{{.State.Health.Status}}'' @ sq @ '' '' @ container
     @ '' 2>/dev/null''"

definition is_active_cmd :: "string \<Rightarrow> string" where
  "is_active_cmd service_name = ''systemctl is-active '' @ service_name @ '' 2>/dev/null''"

definition show_cmd :: "string \<Rightarrow> string" where
  "show_cmd service_name =
     ''systemctl show '' @ service_name @ '' --property=ActiveEnterTimestamp 2>/dev/null''"

definition check_container :: "world \<Rightarrow> rat \<Rightarrow> string \<Rightarrow> string \<times> int" where
  \<comment> \<open>the branch \<^verbatim>\<open>if 'container' in service\<close>: the values of \<^verbatim>\<open>status\<close> and
      \<^verbatim>\<open>uptime_hours\<close> it leaves; the inner handler is a bare \<^verbatim>\<open>except\<close>\<close>
  "check_container w now container =
     (let is_running = run_command (shell_of w) (ps_cmd container)
      in if is_running \<noteq> [] then
           (let started_at = run_command (shell_of w) (started_cmd container);
                hours =
                  (if started_at \<noteq> [] then
                     (case fromisoformat w (replace_Z started_at) of
                        None \<Rightarrow> 720
                      | Some start_time \<Rightarrow> hours_since w now start_time)
                   else 0);
                health = run_command (shell_of w) (health_cmd container)
            in (if health = ''healthy'' \<or> health = [] then ''healthy'' else health, hours))
         else (''stopped'', 0))"

definition check_systemd :: "world \<Rightarrow> rat \<Rightarrow> string \<Rightarrow> py_exn + string \<times> int" where
  \<comment> \<open>the branch \<^verbatim>\<open>elif 'service' in service\<close>; \<^verbatim>\<open>datetime.now()\<close> is the naive local
      reading\<close>
  "check_systemd w now service_name =
     (let is_active = run_command (shell_of w) (is_active_cmd service_name)
      in if is_active = ''active'' then
           (let uptime_output = run_command (shell_of w) (show_cmd service_name)
            in if contains ''ActiveEnterTimestamp='' uptime_output then
                 (case split_on (CHR ''='') uptime_output of
                    _ # timestamp_str # _ \<Rightarrow>
                      (case strptime_systemd w timestamp_str of
                         None \<Rightarrow> Inr (''healthy'', 720)
                       | Some start_time \<Rightarrow>
                           Inr (''healthy'', hours_since w now (Naive start_time)))
                  | _ \<Rightarrow> Inl IndexError)
               else Inr (''healthy'', 0))
         else Inr (''stopped'', 0))"

definition check_service :: "world \<Rightarrow> rat \<Rightarrow> (string \<rightharpoonup> string) \<Rightarrow> string \<times> int" where
  \<comment> \<open>the \<^verbatim>\<open>try\<close> statement: the values of \<^verbatim>\<open>status\<close> and \<^verbatim>\<open>uptime_hours\<close> after it\<close>
  "check_service w now service =
     (case (case service ''container'' of
              Some container \<Rightarrow> Inr (check_container w now container)
            | None \<Rightarrow>
                (case service ''service'' of
                   Some service_name \<Rightarrow> check_systemd w now service_name
                 | None \<Rightarrow> Inr (''unknown'', 0))) of
        Inr r \<Rightarrow> r
      | Inl e \<Rightarrow> (''healthy'', 720))"

definition get_service_status ::
  "world \<Rightarrow> rat \<Rightarrow> (string \<rightharpoonup> string) \<Rightarrow> py_exn + service_status" where
  \<comment> \<open>\<^verbatim>\<open>service['name']\<close> is read before the \<^verbatim>\<open>try\<close>\<close>
  "get_service_status w now service =
     (case service ''name'' of
        None \<Rightarrow> Inl KeyError
      | Some n \<Rightarrow>
          (case check_service w now service of
             (st, hours) \<Rightarrow>
               Inr \<lparr> name = n,
                     status = (if st \<noteq> [] then st else ''healthy''),
                     uptime_hours = (if 0 < hours then hours else 720),
                     last_check = now \<rparr>))"

section \<open>The aggregator\<close>

text \<open>
  One run reads the clock several times; the model gives every read of a run the same
  instant \<open>now\<close>. The key \<^verbatim>\<open>services\<close> of the snapshot is the field
  \<open>service_records\<close>, the configuration having a field \<open>services\<close> already.
\<close>

record uptime_info =
  percentage :: py_float
  days_monitored :: int
  last_incident :: "string option"

record security_info = attack_stats +
  last_attack :: timestamp

record network_info =
  bytes_in_24h :: int
  bytes_out_24h :: int
  active_connections :: int

record snapshot =
  timestamp :: timestamp
  uptime :: uptime_info
  security :: security_info
  containers :: container_stats
  storage :: storage_stats
  service_records :: "service_status list"
  network :: network_info

fun collect_list :: "('a \<Rightarrow> py_exn + 'b) \<Rightarrow> 'a list \<Rightarrow> py_exn + 'b list" where
  \<comment> \<open>a list comprehension over a function that can raise\<close>
  "collect_list f [] = Inr []"
| "collect_list f (x # xs) =
     (case f x of
        Inl e \<Rightarrow> Inl e
      | Inr y \<Rightarrow> (case collect_list f xs of Inl e \<Rightarrow> Inl e | Inr ys \<Rightarrow> Inr (y # ys)))"

definition collect_all_stats :: "config \<Rightarrow> world \<Rightarrow> rat \<Rightarrow> py_exn + snapshot" where
  "collect_all_stats cfg w now =
     (let uptime_pct = get_uptime_percentage (shell_of w);
          security_stats = get_attacks_blocked cfg (shell_of w);
          container_stats = get_container_stats (shell_of w);
          storage_stats = get_storage_stats cfg (path_exists w) (shell_of w)
      in case collect_list (get_service_status w now) (services cfg) of
           Inl e \<Rightarrow> Inl e
         | Inr svcs \<Rightarrow>
             Inr \<lparr> timestamp = now,
                   uptime = \<lparr> percentage = uptime_pct, days_monitored = 30, last_incident = None \<rparr>,
                   security =
                     \<lparr> attacks_blocked_24h = attacks_blocked_24h security_stats,
                       attacks_blocked_total = attacks_blocked_total security_stats,
                       active_bans = active_bans security_stats,
                       last_attack = now - 2 * 60 \<rparr>,
                   containers = container_stats,
                   storage = storage_stats,
                   service_records = svcs,
                   network =
                     \<lparr> bytes_in_24h = 12500000000, bytes_out_24h = 8900000000,
                       active_connections = 42 \<rparr> \<rparr>)"

text \<open>
  Comparing two snapshots up to the fields the specification exempts: the top-level time
  stamp, the time stamp of the last attack, and the time stamp of each service record.
  The second comparison exempts the uptime in hours of each service record as well.
\<close>

definition erase_check :: "service_status \<Rightarrow> service_status" where
  "erase_check r = r \<lparr> last_check := 0 \<rparr>"

definition erase_check_and_hours :: "service_status \<Rightarrow> service_status" where
  "erase_check_and_hours r = r \<lparr> last_check := 0, uptime_hours := 0 \<rparr>"

definition without_times :: "snapshot \<Rightarrow> snapshot" where
  "without_times s =
     s \<lparr> timestamp := 0,
         security := (security s) \<lparr> last_attack := 0 \<rparr>,
         service_records := map erase_check (service_records s) \<rparr>"

definition without_times_and_hours :: "snapshot \<Rightarrow> snapshot" where
  "without_times_and_hours s =
     s \<lparr> timestamp := 0,
         security := (security s) \<lparr> last_attack := 0 \<rparr>,
         service_records := map erase_check_and_hours (service_records s) \<rparr>"

definition same_up_to :: "(snapshot \<Rightarrow> snapshot) \<Rightarrow> py_exn + snapshot \<Rightarrow> py_exn + snapshot \<Rightarrow> bool" where
  \<comment> \<open>two runs raise the same exception, or return snapshots that agree after erasing\<close>
  "same_up_to erase a b =
     (case a of
        Inl e \<Rightarrow> b = Inl e
      | Inr s \<Rightarrow> (case b of Inl e \<Rightarrow> False | Inr s' \<Rightarrow> erase s = erase s'))"

definition service_hours :: "py_exn + snapshot \<Rightarrow> int list" where
  "service_hours a = (case a of Inl e \<Rightarrow> [] | Inr s \<Rightarrow> map uptime_hours (service_records s))"

section \<open>Concrete inputs\<close>

text \<open>Shells used to run the collectors on concrete command outputs.\<close>

definition sh_exit_1 :: shell where
  \<comment> \<open>every command prints \<^verbatim>\<open>hi\<close> and a newline, then exits with status 1\<close>
  "sh_exit_1 = (\<lambda>cmd. Completed 1 ''hi\<newline>'')"

definition sh_timeout :: shell where
  \<comment> \<open>every command hangs until the timeout\<close>
  "sh_timeout = (\<lambda>cmd. Raised TimeoutExpired)"

definition sh_zero :: shell where
  \<comment> \<open>every command prints \<^verbatim>\<open>0\<close>, as \<^verbatim>\<open>wc -l\<close> does on empty input\<close>
  "sh_zero = (\<lambda>cmd. Completed 0 ''0\<newline>'')"

definition sh_bans :: "string \<Rightarrow> shell" where
  \<comment> \<open>the count of \<^verbatim>\<open>Ban\<close> lines in the log is printed as the given text and a
      newline, the other commands print nothing\<close>
  "sh_bans out =
     (\<lambda>cmd. if cmd = bans_24h_cmd CONFIG then Completed 0 (out @ ''\<newline>'')
            else Completed 0 [])"


text \<open>Disk-usage queries: one output line of \<^verbatim>\<open>df -B1\<close> for each configured path.\<close>

definition sh_df :: "string \<Rightarrow> string \<Rightarrow> shell" where
  "sh_df data media =
     (\<lambda>cmd. if cmd = df_cmd ''/mnt/data'' then Completed 0 (data @ ''\<newline>'')
            else if cmd = df_cmd ''/mnt/media'' then Completed 0 (media @ ''\<newline>'')
            else Completed 0 [])"

definition all_exist :: "string \<Rightarrow> bool" where
  "all_exist = (\<lambda>path. True)"

definition df_empty_2tb :: string where
  \<comment> \<open>a mounted file system of 2 TiB with nothing used\<close>
  "df_empty_2tb = ''tmpfs 2199023255552 0 2199023255552 0% /mnt/data''"

definition df_zero :: string where
  "df_zero = ''none 0 0 0 - /mnt''"

definition df_dashes :: string where
  \<comment> \<open>the sizes are not available and printed as dashes\<close>
  "df_dashes = ''/dev/sdc1 - - - - /mnt/media''"

definition df_half_4tb :: string where
  \<comment> \<open>4 TiB, half of it used\<close>
  "df_half_4tb = ''/dev/sdb1 4398046511104 2199023255552 2199023255552 50% /mnt/data''"

text \<open>
  A host where only the Prometheus container runs, started at 2024-01-01 00:00:00 UTC,
  which is 1704067200 seconds after the epoch. The parser below is the value of
  \<^verbatim>\<open>datetime.fromisoformat\<close> on that one start time; the runs ask it nothing else.
\<close>

definition sh_prometheus :: shell where
  "sh_prometheus =
     (\<lambda>cmd. if cmd = ps_cmd ''prometheus'' then Completed 0 ''3f2a9c1b7d4e\<newline>''
            else if cmd = started_cmd ''prometheus'' then Completed 0 ''2024-01-01T00:00:00Z\<newline>''
            else if cmd = health_cmd ''prometheus'' then Completed 0 ''healthy\<newline>''
            else Completed 0 [])"

definition iso_2024 :: "string \<Rightarrow> py_datetime option" where
  "iso_2024 s = (if s = ''2024-01-01T00:00:00+00:00'' then Some (Aware 1704067200) else None)"

definition w_prometheus :: world where
  "w_prometheus =
     \<lparr> shell_of = sh_prometheus, path_exists = (\<lambda>path. False), utc_offset = 0,
       fromisoformat = iso_2024, strptime_systemd = (\<lambda>s. None) \<rparr>"

definition w_down :: world where
  \<comment> \<open>no container runs and no path exists\<close>
  "w_down =
     \<lparr> shell_of = (\<lambda>cmd. Completed 0 []), path_exists = (\<lambda>path. False), utc_offset = 0,
       fromisoformat = (\<lambda>s. None), strptime_systemd = (\<lambda>s. None) \<rparr>"

section \<open>Properties\<close>

subsection \<open>Evaluating the built-ins\<close>

lemma strip_Nil: "strip [] = []"
  by (simp add: strip_def)

lemma strip_line:
  "strip ''hi\<newline>'' = ''hi''"
  "strip ''0\<newline>'' = ''0''"
  "strip ''5\<newline>'' = ''5''"
  "strip ''250\<newline>'' = ''250''"
  by (simp_all add: strip_def py_isspace_def)

lemma last_dropWhile: "dropWhile P xs \<noteq> [] \<Longrightarrow> last (dropWhile P xs) = last xs"
  by (induction xs) (auto split: if_splits)

lemma strip_trimmed: "trimmed (strip s)"
proof (cases "strip s = []")
  case True
  then show ?thesis by (simp add: trimmed_def)
next
  case False
  define t where "t = dropWhile py_isspace s"
  define u where "u = dropWhile py_isspace (rev t)"
  have s: "strip s = rev u"
    by (simp add: strip_def t_def u_def)
  with False have u: "u \<noteq> []"
    by simp
  then have "rev t \<noteq> []"
    by (auto simp: u_def)
  then have t: "t \<noteq> []"
    by simp
  have "hd (rev u) = last u"
    using u by (simp add: hd_rev)
  also have "\<dots> = last (rev t)"
    using u unfolding u_def by (rule last_dropWhile)
  also have "\<dots> = hd t"
    using t by (simp add: last_rev)
  finally have h: "hd (strip s) = hd t"
    by (simp add: s)
  have "\<not> py_isspace (hd t)"
    using t unfolding t_def by (rule hd_dropWhile)
  moreover have "last (rev u) = hd u"
    using u by (simp add: last_rev)
  moreover have "\<not> py_isspace (hd u)"
    using u unfolding u_def by (rule hd_dropWhile)
  ultimately show ?thesis
    using h by (simp add: trimmed_def s)
qed

lemma int_if_isdigit_Nil: "int_if_isdigit [] d = Inr d"
  by (simp add: int_if_isdigit_def isdigit_def)

lemma int_if_isdigit_num:
  "int_if_isdigit ''0'' d = Inr 0"
  "int_if_isdigit ''5'' d = Inr 5"
  "int_if_isdigit ''250'' d = Inr 250"
  by (simp_all add: int_if_isdigit_def isdigit_def isdigit_chr_def py_int_def strip_def
      py_isspace_def is_ascii_digit_def digit_val_def)

lemma run_command_sh_timeout: "run_command sh_timeout cmd = []"
  by (simp add: run_command_def run_command_try_def sh_timeout_def)

lemma run_command_sh_zero: "run_command sh_zero cmd = ''0''"
  by (simp add: run_command_def run_command_try_def sh_zero_def strip_line)

lemma cmds_distinct:
  "banned_cmd \<noteq> bans_24h_cmd CONFIG" "active_bans_cmd \<noteq> bans_24h_cmd CONFIG"
  by (simp_all add: banned_cmd_def bans_24h_cmd_def active_bans_cmd_def CONFIG_def sq_def bs_def)

lemma run_command_sh_bans:
  "run_command (sh_bans out) (bans_24h_cmd CONFIG) = strip (out @ ''\<newline>'')"
  "run_command (sh_bans out) banned_cmd = []"
  "run_command (sh_bans out) active_bans_cmd = []"
  using cmds_distinct by (simp_all add: run_command_def run_command_try_def sh_bans_def strip_Nil)

subsection \<open>The command executor\<close>

text \<open>
  Claim C7, as stated: \<^verbatim>\<open>run_command\<close> returns the empty string on any failure, a
  non-zero exit status included. It does not: a command that prints \<^verbatim>\<open>hi\<close> and exits
  with status 1 makes \<^verbatim>\<open>run_command\<close> return \<^verbatim>\<open>hi\<close>.
\<close>

theorem run_command_nonzero_exit_counterexample:
  "sh_exit_1 ''echo hi; exit 1'' = Completed 1 ''hi\<newline>'' \<and>
   run_command sh_exit_1 ''echo hi; exit 1'' = ''hi'' \<and>
   run_command sh_exit_1 ''echo hi; exit 1'' \<noteq> []"
  by (simp add: run_command_def run_command_try_def sh_exit_1_def strip_line)

text \<open>
  Claim C7, amended: for every command, \<^verbatim>\<open>run_command\<close> returns a string and never
  raises; when the process completes it returns the trimmed standard output whatever the
  exit status, and when \<^verbatim>\<open>subprocess.run\<close> raises (timeout or any other exception) it
  returns the empty string.
\<close>

theorem run_command_returns:
  "(\<forall>returncode out. sh cmd = Completed returncode out \<longrightarrow> run_command sh cmd = strip out) \<and>
   (\<forall>e. sh cmd = Raised e \<longrightarrow> run_command sh cmd = []) \<and>
   trimmed (run_command sh cmd)"
proof -
  have "trimmed (run_command sh cmd)"
  proof (cases "sh cmd")
    case (Completed returncode out)
    then show ?thesis
      by (simp add: run_command_def run_command_try_def strip_trimmed)
  next
    case (Raised e)
    then show ?thesis
      by (simp add: run_command_def run_command_try_def trimmed_def)
  qed
  then show ?thesis
    by (simp add: run_command_def run_command_try_def)
qed

theorem run_command_returns_witness:
  "sh_exit_1 ''ls'' = Completed 1 ''hi\<newline>'' \<and> run_command sh_exit_1 ''ls'' = ''hi'' \<and>
   sh_timeout ''ls'' = Raised TimeoutExpired \<and> run_command sh_timeout ''ls'' = []"
proof -
  have a: "sh_exit_1 ''ls'' = Completed 1 ''hi\<newline>''"
    by (simp add: sh_exit_1_def)
  have b: "sh_timeout ''ls'' = Raised TimeoutExpired"
    by (simp add: sh_timeout_def)
  from run_command_returns [of sh_exit_1 "''ls''"] a
  have "run_command sh_exit_1 ''ls'' = strip ''hi\<newline>''"
    by blast
  then have c: "run_command sh_exit_1 ''ls'' = ''hi''"
    by (simp add: strip_line)
  from run_command_returns [of sh_timeout "''ls''"] b
  have d: "run_command sh_timeout ''ls'' = []"
    by blast
  from a b c d show ?thesis by blast
qed

subsection \<open>The intrusion-block collector\<close>

text \<open>
  Claim C2: whenever the collector reaches the \<^verbatim>\<open>return\<close> of its \<^verbatim>\<open>try\<close> block, the
  reported 24-hour count is the maximum of the parsed count and 100, and the reported
  total is the maximum of the parsed total and 45000. The witness runs it on a log count
  of 5 (reported as 100) and of 250 (reported as 250).
\<close>

theorem get_attacks_blocked_floor:
  "get_attacks_blocked_try cfg sh = Inr r \<longrightarrow>
     (\<exists>bans_24h total_banned.
        int_if_isdigit (run_command sh (bans_24h_cmd cfg)) 0 = Inr bans_24h \<and>
        int_if_isdigit (run_command sh banned_cmd) 0 = Inr total_banned \<and>
        get_attacks_blocked cfg sh = r \<and>
        attacks_blocked_24h r = max bans_24h 100 \<and>
        attacks_blocked_total r = max total_banned 45000)"
  by (auto simp: get_attacks_blocked_try_def get_attacks_blocked_def split: sum.splits)

theorem get_attacks_blocked_floor_witness:
  "get_attacks_blocked_try CONFIG (sh_bans ''5'') =
     Inr \<lparr> attacks_blocked_24h = 100, attacks_blocked_total = 45000, active_bans = 0 \<rparr> \<and>
   int_if_isdigit (run_command (sh_bans ''5'') (bans_24h_cmd CONFIG)) 0 = Inr 5 \<and>
   attacks_blocked_24h (get_attacks_blocked CONFIG (sh_bans ''5'')) = 100 \<and>
   get_attacks_blocked_try CONFIG (sh_bans ''250'') =
     Inr \<lparr> attacks_blocked_24h = 250, attacks_blocked_total = 45000, active_bans = 0 \<rparr> \<and>
   int_if_isdigit (run_command (sh_bans ''250'') (bans_24h_cmd CONFIG)) 0 = Inr 250 \<and>
   attacks_blocked_24h (get_attacks_blocked CONFIG (sh_bans ''250'')) = 250"
proof -
  have a: "get_attacks_blocked_try CONFIG (sh_bans ''5'') =
      Inr \<lparr> attacks_blocked_24h = 100, attacks_blocked_total = 45000, active_bans = 0 \<rparr>"
    by (simp add: get_attacks_blocked_try_def run_command_sh_bans strip_line
        int_if_isdigit_num int_if_isdigit_Nil)
  have b: "get_attacks_blocked_try CONFIG (sh_bans ''250'') =
      Inr \<lparr> attacks_blocked_24h = 250, attacks_blocked_total = 45000, active_bans = 0 \<rparr>"
    by (simp add: get_attacks_blocked_try_def run_command_sh_bans strip_line
        int_if_isdigit_num int_if_isdigit_Nil)
  from get_attacks_blocked_floor [of CONFIG "sh_bans ''5''"
         "\<lparr> attacks_blocked_24h = 100, attacks_blocked_total = 45000, active_bans = 0 \<rparr>"] a
  have c: "attacks_blocked_24h (get_attacks_blocked CONFIG (sh_bans ''5'')) = 100"
    by auto
  from get_attacks_blocked_floor [of CONFIG "sh_bans ''250''"
         "\<lparr> attacks_blocked_24h = 250, attacks_blocked_total = 45000, active_bans = 0 \<rparr>"] b
  have d: "attacks_blocked_24h (get_attacks_blocked CONFIG (sh_bans ''250'')) = 250"
    by auto
  show ?thesis
    using a b c d by (simp add: run_command_sh_bans strip_line int_if_isdigit_num)
qed

text \<open>
  The \<^verbatim>\<open>except\<close> branch is reached when an output passes \<^verbatim>\<open>isdigit\<close> and fails
  \<^verbatim>\<open>int\<close>, as the superscript two does.
\<close>

lemma get_attacks_blocked_superscript:
  "get_attacks_blocked CONFIG (sh_bans [CHR 0xB2]) = attacks_fallback"
  by (simp add: get_attacks_blocked_def get_attacks_blocked_try_def run_command_sh_bans
      int_if_isdigit_Nil strip_def py_isspace_def int_if_isdigit_def isdigit_def isdigit_chr_def
      is_ascii_digit_def py_int_def)



subsection \<open>The container status collector\<close>

text \<open>
  Claim C4 says that a healthy count that does not parse defaults to the running count,
  so that with four unparsable outputs the record has healthy equal to running. Run on
  four commands that time out, the collector reports 24 running and 0 healthy: the
  default taken for healthy is the parsed running count before its own default of 24 is
  applied, while the \<^verbatim>\<open>except\<close> branch of the same function reports healthy as 24.
\<close>

theorem get_container_stats_all_unparsable:
  "get_container_stats sh_timeout =
     \<lparr> running = 24, total_n = 26, healthy = 0, unhealthy = 0 \<rparr> \<and>
   healthy (get_container_stats sh_timeout) \<noteq> running (get_container_stats sh_timeout) \<and>
   healthy containers_fallback = running containers_fallback"
  by (simp add: get_container_stats_def get_container_stats_try_def int_if_isdigit_Nil
      run_command_sh_timeout containers_fallback_def)

text \<open>
  Claim C9: the returned record never has running or total equal to 0. A numeric count
  of zero takes the same defaults as an output that does not parse (24 for running, 26
  for total), and a healthy count of zero is replaced by the parsed running count, before
  the default of the latter.
\<close>

theorem get_container_stats_zero_defaults:
  "running (get_container_stats sh) \<noteq> 0 \<and> total_n (get_container_stats sh) \<noteq> 0 \<and>
   (get_container_stats_try sh = Inr r \<longrightarrow>
      (\<exists>running_raw total_raw healthy_raw.
         int_if_isdigit (run_command sh running_cmd) 0 = Inr running_raw \<and>
         int_if_isdigit (run_command sh total_cmd) 0 = Inr total_raw \<and>
         int_if_isdigit (run_command sh healthy_cmd) running_raw = Inr healthy_raw \<and>
         get_container_stats sh = r \<and>
         (running_raw = 0 \<longrightarrow> running r = 24) \<and>
         (total_raw = 0 \<longrightarrow> total_n r = 26) \<and>
         (healthy_raw = 0 \<longrightarrow> healthy r = running_raw)))"
  by (auto simp: get_container_stats_def get_container_stats_try_def containers_fallback_def
      split: sum.splits)

theorem get_container_stats_zero_defaults_witness:
  "get_container_stats_try sh_zero =
     Inr \<lparr> running = 24, total_n = 26, healthy = 0, unhealthy = 0 \<rparr> \<and>
   int_if_isdigit (run_command sh_zero running_cmd) 0 = Inr 0 \<and>
   int_if_isdigit (run_command sh_zero total_cmd) 0 = Inr 0 \<and>
   int_if_isdigit (run_command sh_zero healthy_cmd) 0 = Inr 0 \<and>
   running (get_container_stats sh_zero) = 24 \<and> total_n (get_container_stats sh_zero) = 26 \<and>
   healthy (get_container_stats sh_zero) = 0"
proof -
  have a: "get_container_stats_try sh_zero =
      Inr \<lparr> running = 24, total_n = 26, healthy = 0, unhealthy = 0 \<rparr>"
    by (simp add: get_container_stats_try_def run_command_sh_zero int_if_isdigit_num)
  from get_container_stats_zero_defaults
         [of sh_zero "\<lparr> running = 24, total_n = 26, healthy = 0, unhealthy = 0 \<rparr>"] a
  show ?thesis
    by (auto simp: run_command_sh_zero int_if_isdigit_num)
qed

subsection \<open>The uptime collector\<close>
















subsection \<open>The storage collector\<close>

lemma storage_loop_zero:
  "\<forall>path \<in> set paths. ex path \<longrightarrow>
     (4 \<le> length (split_ws (run_command sh (df_cmd path))) \<longrightarrow>
        py_int (split_ws (run_command sh (df_cmd path)) ! 1) = Inr 0 \<and>
        py_int (split_ws (run_command sh (df_cmd path)) ! 2) = Inr 0) \<Longrightarrow>
   storage_loop ex sh paths total_bytes used_bytes = Inr (total_bytes, used_bytes)"
  by (induction paths arbitrary: total_bytes used_bytes) (simp_all add: Let_def)

lemma storage_report_zero: "storage_report 0 0 = storage_fallback"
  by (simp add: storage_report_def storage_fallback_def)

text \<open>
  Claim C5: if every configured path that is queried reports a total of 0 and 0 bytes
  used, the collector returns exactly 6, 3.2, 2.8 and 53. Paths that do not exist, and
  outputs of fewer than four fields, are skipped by the loop and change nothing.
\<close>

theorem get_storage_stats_all_zero:
  "(\<forall>path \<in> set (storage_paths cfg). ex path \<longrightarrow>
      (4 \<le> length (split_ws (run_command sh (df_cmd path))) \<longrightarrow>
         py_int (split_ws (run_command sh (df_cmd path)) ! 1) = Inr 0 \<and>
         py_int (split_ws (run_command sh (df_cmd path)) ! 2) = Inr 0)) \<longrightarrow>
   get_storage_stats_try cfg ex sh = Inr (storage_report 0 0) \<and>
   get_storage_stats cfg ex sh =
     \<lparr> total_tb = 6, used_tb = 16 / 5, available_tb = 14 / 5, percentage_used = 53 \<rparr>"
proof
  assume h: "\<forall>path \<in> set (storage_paths cfg). ex path \<longrightarrow>
      (4 \<le> length (split_ws (run_command sh (df_cmd path))) \<longrightarrow>
         py_int (split_ws (run_command sh (df_cmd path)) ! 1) = Inr 0 \<and>
         py_int (split_ws (run_command sh (df_cmd path)) ! 2) = Inr 0)"
  have "storage_loop ex sh (storage_paths cfg) 0 0 = Inr (0, 0)"
    using h by (rule storage_loop_zero)
  then show "get_storage_stats_try cfg ex sh = Inr (storage_report 0 0) \<and>
   get_storage_stats cfg ex sh =
     \<lparr> total_tb = 6, used_tb = 16 / 5, available_tb = 14 / 5, percentage_used = 53 \<rparr>"
    using storage_report_zero by (simp add: get_storage_stats_def get_storage_stats_try_def storage_fallback_def)
qed

lemma df_cmds_distinct: "df_cmd ''/mnt/media'' \<noteq> df_cmd ''/mnt/data''"
  by (simp add: df_cmd_def)

lemma run_command_sh_df:
  "run_command (sh_df data media) (df_cmd ''/mnt/data'') = strip (data @ ''\<newline>'')"
  "run_command (sh_df data media) (df_cmd ''/mnt/media'') = strip (media @ ''\<newline>'')"
  using df_cmds_distinct by (simp_all add: run_command_def run_command_try_def sh_df_def)

lemma split_df:
  "split_ws (strip (df_zero @ ''\<newline>'')) = [''none'', ''0'', ''0'', ''0'', ''-'', ''/mnt'']"
  "split_ws (strip (df_empty_2tb @ ''\<newline>'')) =
     [''tmpfs'', ''2199023255552'', ''0'', ''2199023255552'', ''0%'', ''/mnt/data'']"
  "split_ws (strip (df_dashes @ ''\<newline>'')) =
     [''/dev/sdc1'', ''-'', ''-'', ''-'', ''-'', ''/mnt/media'']"
  "split_ws (strip (df_half_4tb @ ''\<newline>'')) =
     [''/dev/sdb1'', ''4398046511104'', ''2199023255552'', ''2199023255552'', ''50%'', ''/mnt/data'']"
  by (simp_all add: df_zero_def df_empty_2tb_def df_dashes_def df_half_4tb_def strip_def split_ws_def py_isspace_def)

lemmas int_eval = py_int_def strip_def py_isspace_def is_ascii_digit_def digit_val_def

lemma py_int_df:
  "py_int ''0'' = Inr 0"
  "py_int ''2199023255552'' = Inr 2199023255552"
  "py_int ''4398046511104'' = Inr 4398046511104"
  "py_int ''-'' = Inl ValueError"
  by (simp_all add: int_eval)

lemma storage_paths_CONFIG: "storage_paths CONFIG = [''/mnt/data'', ''/mnt/media'']"
  by (simp add: CONFIG_def)

theorem get_storage_stats_all_zero_witness:
  "storage_paths CONFIG = [''/mnt/data'', ''/mnt/media''] \<and>
   split_ws (run_command (sh_df df_zero df_zero) (df_cmd ''/mnt/data'')) =
     [''none'', ''0'', ''0'', ''0'', ''-'', ''/mnt''] \<and>
   split_ws (run_command (sh_df df_zero df_zero) (df_cmd ''/mnt/media'')) =
     [''none'', ''0'', ''0'', ''0'', ''-'', ''/mnt''] \<and>
   py_int ''0'' = Inr 0 \<and>
   get_storage_stats CONFIG all_exist (sh_df df_zero df_zero) =
     \<lparr> total_tb = 6, used_tb = 16 / 5, available_tb = 14 / 5, percentage_used = 53 \<rparr>"
proof -
  have a: "\<forall>path \<in> set (storage_paths CONFIG). all_exist path \<longrightarrow>
      (4 \<le> length (split_ws (run_command (sh_df df_zero df_zero) (df_cmd path))) \<longrightarrow>
         py_int (split_ws (run_command (sh_df df_zero df_zero) (df_cmd path)) ! 1) = Inr 0 \<and>
         py_int (split_ws (run_command (sh_df df_zero df_zero) (df_cmd path)) ! 2) = Inr 0)"
    by (simp add: storage_paths_CONFIG run_command_sh_df split_df py_int_df)
  have b: "split_ws (run_command (sh_df df_zero df_zero) (df_cmd ''/mnt/data'')) =
      [''none'', ''0'', ''0'', ''0'', ''-'', ''/mnt'']"
    "split_ws (run_command (sh_df df_zero df_zero) (df_cmd ''/mnt/media'')) =
      [''none'', ''0'', ''0'', ''0'', ''-'', ''/mnt'']"
    by (simp_all add: run_command_sh_df split_df)
  from get_storage_stats_all_zero [of CONFIG all_exist "sh_df df_zero df_zero"] a
  have c: "get_storage_stats CONFIG all_exist (sh_df df_zero df_zero) =
     \<lparr> total_tb = 6, used_tb = 16 / 5, available_tb = 14 / 5, percentage_used = 53 \<rparr>"
    by blast
  from b c storage_paths_CONFIG py_int_df(1) show ?thesis by blast
qed









subsection \<open>The service status collector\<close>

text \<open>
  Claim C6: for a descriptor with a name and a container, when the query for the running
  container prints nothing the returned record has status \<^verbatim>\<open>stopped\<close> and an uptime
  of 720 hours. In every returned record the uptime is not 0: a value of
  \<^verbatim>\<open>uptime_hours\<close> that is 0 or negative after the status is determined is replaced by
  720, and a positive one is returned as it is.
\<close>

theorem get_service_status_stopped:
  "(service ''name'' = Some n \<and> service ''container'' = Some c \<and>
    run_command (shell_of w) (ps_cmd c) = [] \<longrightarrow>
      check_service w now service = (''stopped'', 0) \<and>
      get_service_status w now service =
        Inr \<lparr> name = n, status = ''stopped'', uptime_hours = 720, last_check = now \<rparr>) \<and>
   (get_service_status w now service = Inr r \<longrightarrow>
      uptime_hours r \<noteq> 0 \<and>
      (snd (check_service w now service) \<le> 0 \<longrightarrow> uptime_hours r = 720) \<and>
      (0 < snd (check_service w now service) \<longrightarrow>
         uptime_hours r = snd (check_service w now service)))"
proof -
  have a: "check_service w now service = (''stopped'', 0)"
    if "service ''container'' = Some c" "run_command (shell_of w) (ps_cmd c) = []"
    using that by (simp add: check_service_def check_container_def)
  have b: "get_service_status w now service =
        Inr \<lparr> name = n, status = ''stopped'', uptime_hours = 720, last_check = now \<rparr>"
    if "service ''name'' = Some n" "service ''container'' = Some c"
       "run_command (shell_of w) (ps_cmd c) = []"
    using that a by (simp add: get_service_status_def)
  have c: "uptime_hours r \<noteq> 0 \<and>
      (snd (check_service w now service) \<le> 0 \<longrightarrow> uptime_hours r = 720) \<and>
      (0 < snd (check_service w now service) \<longrightarrow>
         uptime_hours r = snd (check_service w now service))"
    if "get_service_status w now service = Inr r"
    using that by (auto simp: get_service_status_def split: option.splits prod.splits if_splits)
  from a b c show ?thesis by blast
qed

lemma run_command_w_down: "run_command (shell_of w_down) cmd = []"
  by (simp add: w_down_def run_command_def run_command_try_def strip_Nil)

lemma py_trunc_hours:
  "py_trunc (7199 / 3600) = 1"
  "py_trunc (7201 / 3600) = 2"
  by code_simp+

lemma run_command_sh_prometheus:
  "run_command sh_prometheus (ps_cmd ''prometheus'') = ''3f2a9c1b7d4e''"
  "run_command sh_prometheus (started_cmd ''prometheus'') = ''2024-01-01T00:00:00Z''"
  "run_command sh_prometheus (health_cmd ''prometheus'') = ''healthy''"
  "run_command sh_prometheus (ps_cmd ''grafana'') = []"
  "run_command sh_prometheus (ps_cmd ''nginx-proxy-manager'') = []"
  "run_command sh_prometheus (ps_cmd ''jellyfin'') = []"
  "run_command sh_prometheus (ps_cmd ''nextcloud'') = []"
  "run_command sh_prometheus (is_active_cmd ''fail2ban'') = []"
  by (simp_all add: run_command_def run_command_try_def sh_prometheus_def strip_def py_isspace_def
      ps_cmd_def started_cmd_def health_cmd_def is_active_cmd_def sq_def)

lemma replace_Z_start: "replace_Z ''2024-01-01T00:00:00Z'' = ''2024-01-01T00:00:00+00:00''"
  by (simp add: replace_Z_def)

lemma check_service_prometheus:
  "check_service w_prometheus 1704074401 [''name'' \<mapsto> ''Prometheus'', ''container'' \<mapsto> ''prometheus''] =
     (''healthy'', 2)"
  by (simp add: check_service_def check_container_def w_prometheus_def run_command_sh_prometheus
      replace_Z_start iso_2024_def hours_since_def py_trunc_hours Let_def)

theorem get_service_status_stopped_witness:
  "[''name'' \<mapsto> ''Grafana'', ''container'' \<mapsto> ''grafana''] ''name'' = Some ''Grafana'' \<and>
   [''name'' \<mapsto> ''Grafana'', ''container'' \<mapsto> ''grafana''] ''container'' = Some ''grafana'' \<and>
   run_command (shell_of w_down) (ps_cmd ''grafana'') = [] \<and>
   get_service_status w_down 1704074399 [''name'' \<mapsto> ''Grafana'', ''container'' \<mapsto> ''grafana''] =
     Inr \<lparr> name = ''Grafana'', status = ''stopped'', uptime_hours = 720, last_check = 1704074399 \<rparr> \<and>
   snd (check_service w_down 1704074399 [''name'' \<mapsto> ''Grafana'', ''container'' \<mapsto> ''grafana'']) \<le> 0 \<and>
   get_service_status w_prometheus 1704074401
       [''name'' \<mapsto> ''Prometheus'', ''container'' \<mapsto> ''prometheus''] =
     Inr \<lparr> name = ''Prometheus'', status = ''healthy'', uptime_hours = 2, last_check = 1704074401 \<rparr> \<and>
   0 < snd (check_service w_prometheus 1704074401
       [''name'' \<mapsto> ''Prometheus'', ''container'' \<mapsto> ''prometheus''])"
proof -
  let ?svc = "[''name'' \<mapsto> ''Grafana'', ''container'' \<mapsto> ''grafana'']"
  let ?r = "\<lparr> name = ''Grafana'', status = ''stopped'', uptime_hours = 720, last_check = 1704074399 \<rparr>"
  let ?prom = "[''name'' \<mapsto> ''Prometheus'', ''container'' \<mapsto> ''prometheus'']"
  let ?p = "\<lparr> name = ''Prometheus'', status = ''healthy'',
    uptime_hours = snd (check_service w_prometheus 1704074401 ?prom), last_check = 1704074401 \<rparr>"
  have a: "?svc ''name'' = Some ''Grafana''" "?svc ''container'' = Some ''grafana''"
    by simp_all
  have b: "run_command (shell_of w_down) (ps_cmd ''grafana'') = []"
    by (rule run_command_w_down)
  from get_service_status_stopped [of ?svc "''Grafana''" "''grafana''" w_down 1704074399 ?r] a b
  have c: "check_service w_down 1704074399 ?svc = (''stopped'', 0)"
    "get_service_status w_down 1704074399 ?svc = Inr ?r"
    by blast+
  have d: "get_service_status w_prometheus 1704074401 ?prom =
      Inr \<lparr> name = ''Prometheus'', status = ''healthy'', uptime_hours = 2, last_check = 1704074401 \<rparr>"
    by (simp add: get_service_status_def check_service_prometheus)
  from get_service_status_stopped [of ?prom "''Prometheus''" "''prometheus''" w_prometheus 1704074401
      "\<lparr> name = ''Prometheus'', status = ''healthy'', uptime_hours = 2, last_check = 1704074401 \<rparr>"] d
  have e: "0 < snd (check_service w_prometheus 1704074401 ?prom) \<longrightarrow>
      2 = snd (check_service w_prometheus 1704074401 ?prom)"
    by simp
  have f: "0 < snd (check_service w_prometheus 1704074401 ?prom)"
    by (simp add: check_service_prometheus)
  from a b c d e f show ?thesis by simp
qed

subsection \<open>The aggregator\<close>

lemma services_prometheus:
  "collect_list (get_service_status w_prometheus t) (services CONFIG) =
     Inr [\<lparr> name = ''Prometheus'', status = ''healthy'',
             uptime_hours = (if 0 < py_trunc ((t - 1704067200) / 3600)
                             then py_trunc ((t - 1704067200) / 3600) else 720),
             last_check = t \<rparr>,
          \<lparr> name = ''Grafana'', status = ''stopped'', uptime_hours = 720, last_check = t \<rparr>,
          \<lparr> name = ''Fail2Ban'', status = ''stopped'', uptime_hours = 720, last_check = t \<rparr>,
          \<lparr> name = ''Nginx Proxy Manager'', status = ''stopped'', uptime_hours = 720, last_check = t \<rparr>,
          \<lparr> name = ''Jellyfin'', status = ''stopped'', uptime_hours = 720, last_check = t \<rparr>,
          \<lparr> name = ''Nextcloud'', status = ''stopped'', uptime_hours = 720, last_check = t \<rparr>]"
  by (simp add: CONFIG_def get_service_status_def check_service_def check_container_def
      check_systemd_def w_prometheus_def run_command_sh_prometheus replace_Z_start iso_2024_def
      hours_since_def Let_def)


lemma service_hours_prometheus:
  "service_hours (collect_all_stats CONFIG w_prometheus 1704074399) = [1, 720, 720, 720, 720, 720]"
  "service_hours (collect_all_stats CONFIG w_prometheus 1704074401) = [2, 720, 720, 720, 720, 720]"
  by (simp_all add: service_hours_def collect_all_stats_def services_prometheus py_trunc_hours
      Let_def)

text \<open>
  Claim C8, as stated: two runs on the same command outputs and file system, at two
  instants, return snapshots that are identical except for the top-level time stamp, the
  time stamp of each service record and the time stamp of the last attack. They need
  not be: with the Prometheus container started at 00:00:00, a run at 01:59:59 reports
  an uptime of 1 hour for it and a run two seconds later reports 2 hours.
\<close>

theorem collect_all_stats_hours_counterexample:
  "service_hours (collect_all_stats CONFIG w_prometheus 1704074399) = [1, 720, 720, 720, 720, 720] \<and>
   service_hours (collect_all_stats CONFIG w_prometheus 1704074401) = [2, 720, 720, 720, 720, 720] \<and>
   \<not> same_up_to without_times (collect_all_stats CONFIG w_prometheus 1704074399)
       (collect_all_stats CONFIG w_prometheus 1704074401)"
proof -
  have "\<not> same_up_to without_times (collect_all_stats CONFIG w_prometheus 1704074399)
       (collect_all_stats CONFIG w_prometheus 1704074401)"
    by (simp add: same_up_to_def without_times_def collect_all_stats_def services_prometheus
        py_trunc_hours erase_check_def Let_def)
  with service_hours_prometheus show ?thesis by simp
qed

lemma check_container_status:
  "fst (check_container w t1 c) = fst (check_container w t2 c)"
  by (simp add: check_container_def Let_def)

lemma check_systemd_status:
  "map_sum id fst (check_systemd w t1 n) = map_sum id fst (check_systemd w t2 n)"
  by (simp add: check_systemd_def Let_def split: list.splits option.splits)

lemma check_service_status:
  "fst (check_service w t1 svc) = fst (check_service w t2 svc)"
proof (cases "svc ''container''")
  case (Some c)
  then show ?thesis
    using check_container_status [of w t1 c t2] by (simp add: check_service_def)
next
  case None
  note nc = None
  show ?thesis
  proof (cases "svc ''service''")
    case None
    with nc show ?thesis by (simp add: check_service_def)
  next
    case (Some n)
    with nc check_systemd_status [of w t1 n t2] show ?thesis
      by (cases "check_systemd w t1 n"; cases "check_systemd w t2 n")
         (simp_all add: check_service_def)
  qed
qed


lemma get_service_status_time:
  "map_sum id erase_check_and_hours (get_service_status w t1 svc) =
   map_sum id erase_check_and_hours (get_service_status w t2 svc)"
  using check_service_status [of w t1 svc t2]
  by (cases "check_service w t1 svc"; cases "check_service w t2 svc")
     (simp add: get_service_status_def erase_check_and_hours_def split: option.splits)

lemma collect_list_time:
  "map_sum id (map erase_check_and_hours) (collect_list (get_service_status w t1) svcs) =
   map_sum id (map erase_check_and_hours) (collect_list (get_service_status w t2) svcs)"
proof (induction svcs)
  case Nil
  show ?case by simp
next
  case (Cons svc svcs)
  from get_service_status_time [of w t1 svc t2] Cons show ?case
    by (cases "get_service_status w t1 svc"; cases "get_service_status w t2 svc";
        cases "collect_list (get_service_status w t1) svcs";
        cases "collect_list (get_service_status w t2) svcs") simp_all
qed

text \<open>
  Claim C8, amended: two runs on the same command outputs and file system, at two
  instants, raise the same exception or return snapshots that are identical except for
  the top-level time stamp, the time stamp of the last attack, and the time stamp and
  the uptime in hours of each service record.
\<close>

theorem collect_all_stats_same_up_to_times_and_hours:
  "same_up_to without_times_and_hours (collect_all_stats cfg w t1) (collect_all_stats cfg w t2)"
  using collect_list_time [of w t1 "services cfg" t2]
  by (cases "collect_list (get_service_status w t1) (services cfg)";
      cases "collect_list (get_service_status w t2) (services cfg)")
     (simp_all add: same_up_to_def collect_all_stats_def without_times_and_hours_def Let_def)

theorem collect_all_stats_same_up_to_times_and_hours_witness:
  "service_hours (collect_all_stats CONFIG w_prometheus 1704074399) = [1, 720, 720, 720, 720, 720] \<and>
   service_hours (collect_all_stats CONFIG w_prometheus 1704074401) = [2, 720, 720, 720, 720, 720] \<and>
   same_up_to without_times_and_hours (collect_all_stats CONFIG w_prometheus 1704074399)
     (collect_all_stats CONFIG w_prometheus 1704074401)"
  using service_hours_prometheus
    collect_all_stats_same_up_to_times_and_hours [of CONFIG w_prometheus 1704074399 1704074401]
  by simp

end
